theory Spec2Isabelle
  imports Main "HOL-Library.Sublist"
begin

section \<open>The notification hook \<open>hooks/notify.py\<close>\<close>

text \<open>
  The script is a thin wrapper over calls into the host: the filesystem, the audio
  libraries \<open>soundfile\<close> and \<open>sounddevice\<close>, the process environment, the clock and
  \<open>requests\<close>. The model makes each such call explicit. A run happens in a \<open>world\<close>,
  which fixes what every call answers, and produces an outcome together with the list of
  the calls it made, in the order it made them.
\<close>

subsection \<open>Paths\<close>

text \<open>
  A \<open>pathlib\<close> path in its POSIX flavour: whether it is anchored at the root, and its
  components. \<open>path_str\<close> is \<open>str(p)\<close>, \<open>path_parent\<close> is \<open>p.parent\<close>, \<open>path_name\<close> is
  \<open>p.name\<close>, and \<open>path_joinpath p c\<close> is \<open>p / c\<close> for a single relative component \<open>c\<close>
  (the only use the script makes of the operator).
\<close>

datatype path = Path bool "string list"

fun join :: "string \<Rightarrow> string list \<Rightarrow> string" where
  "join sep [] = []"
| "join sep [x] = x"
| "join sep (x # y # ys) = x @ sep @ join sep (y # ys)"

fun path_str :: "path \<Rightarrow> string" where
  "path_str (Path True ps) = ''/'' @ join ''/'' ps"
| "path_str (Path False ps) = (if ps = [] then ''.'' else join ''/'' ps)"

fun path_parent :: "path \<Rightarrow> path" where
  "path_parent (Path a ps) = Path a (butlast ps)"

fun path_name :: "path \<Rightarrow> string" where
  "path_name (Path a ps) = (if ps = [] then [] else last ps)"

fun path_joinpath :: "path \<Rightarrow> string \<Rightarrow> path" where
  "path_joinpath (Path a ps) c = Path a (ps @ [c])"

subsection \<open>The host and the calls into it\<close>

text \<open>
  An exception is kept as its text \<open>str(e)\<close>, which is all the script reads of one. The
  exceptions of the model are instances of \<open>Exception\<close>: what the libraries raise on a
  fault, and what \<open>except Exception\<close> catches.
\<close>

type_synonym exn = string

datatype stream = Stdout | Stderr

text \<open>The fields \<open>hour\<close>, \<open>minute\<close> and \<open>second\<close> of a \<open>datetime\<close>.\<close>

record datetime =
  hour :: nat
  minute :: nat
  second :: nat

text \<open>
  What the host answers. \<open>'d\<close> is the type of a decoded sample buffer, which the script
  never inspects.
  \<^item> \<open>sys_argv\<close>: \<open>sys.argv\<close>.
  \<^item> \<open>dunder_file\<close>: \<open>__file__\<close>, and \<open>fs_resolve\<close>: \<open>Path.resolve\<close>.
  \<^item> \<open>fs_exists\<close>: \<open>Path.exists\<close>, which answers or raises (\<open>Inl\<close>): up to Python 3.12 it
    passes on every \<open>OSError\<close> of the underlying \<open>stat\<close> but a few (a name that is too
    long, a directory that may not be searched).
  \<^item> \<open>soundfile_read\<close>: \<open>sf.read\<close>, which raises (\<open>Inl\<close>) or returns the samples and the
    sample rate.
  \<^item> \<open>sounddevice_play\<close> and \<open>sounddevice_wait\<close>: \<open>sd.play\<close> and \<open>sd.wait\<close>, which raise
    (\<open>Some\<close>) or return.
  \<^item> \<open>environ\<close>: the process environment read by \<open>os.getenv\<close>.
  \<^item> \<open>cwd\<close>: \<open>Path.cwd()\<close>, which returns the directory or raises (\<open>Inl\<close>) when the
    working directory has been removed, and \<open>clock\<close>: \<open>datetime.now()\<close>.
  \<^item> \<open>http_post\<close>: \<open>requests.post\<close> on a URL, a JSON object and a timeout in seconds,
    which raises (\<open>Inl\<close>: connection error, timeout) or returns a response, of which the
    model keeps the status code.

  The calls that can raise are those into the audio libraries and into \<open>requests\<close>,
  which the script guards, and \<open>Path.exists\<close> and \<open>Path.cwd\<close>, which it makes outside of
  any \<open>try\<close>. \<open>Path.resolve\<close>, \<open>os.getenv\<close>, \<open>datetime.now\<close> and \<open>print\<close> on the error
  stream are taken to return.
\<close>

record 'd world =
  sys_argv :: "string list"
  dunder_file :: path
  fs_resolve :: "path \<Rightarrow> path"
  fs_exists :: "path \<Rightarrow> exn + bool"
  soundfile_read :: "path \<Rightarrow> exn + ('d \<times> nat)"
  sounddevice_play :: "'d \<Rightarrow> nat \<Rightarrow> exn option"
  sounddevice_wait :: "exn option"
  environ :: "string \<Rightarrow> string option"
  cwd :: "exn + path"
  clock :: datetime
  http_post :: "string \<Rightarrow> (string \<times> string option) list \<Rightarrow> nat \<Rightarrow> exn + nat"

text \<open>
  The calls a run makes. \<open>Write s x\<close> writes the text \<open>x\<close> to the standard stream \<open>s\<close>;
  every other constructor is the call of the same name with its arguments.
\<close>

datatype 'd effect =
    Write stream string
  | PathResolve path
  | PathExists path
  | SfRead path
  | SdPlay 'd nat
  | SdWait
  | OsGetenv string
  | PathCwd
  | DatetimeNow
  | RequestsPost string "(string \<times> string option) list" nat

text \<open>
  A computation: it raises (\<open>Inl\<close>) or returns (\<open>Inr\<close>), after the calls listed.
\<close>

type_synonym ('a, 'd) io = "(exn + 'a) \<times> 'd effect list"

definition io_return :: "'a \<Rightarrow> ('a, 'd) io" where
  "io_return x = (Inr x, [])"

definition io_raise :: "exn \<Rightarrow> ('a, 'd) io" where
  "io_raise e = (Inl e, [])"

text \<open>Sequencing: an exception of the first part skips the second.\<close>

definition io_bind :: "('a, 'd) io \<Rightarrow> ('a \<Rightarrow> ('b, 'd) io) \<Rightarrow> ('b, 'd) io" where
  "io_bind m f =
     (case fst m of
        Inl e \<Rightarrow> (Inl e, snd m)
      | Inr x \<Rightarrow> (fst (f x), snd m @ snd (f x)))"

definition io_then :: "('a, 'd) io \<Rightarrow> ('b, 'd) io \<Rightarrow> ('b, 'd) io" where
  "io_then m k = io_bind m (\<lambda>_. k)"

text \<open>\<open>try: body except Exception as e: handler\<close>.\<close>

definition try_except :: "('a, 'd) io \<Rightarrow> (exn \<Rightarrow> ('a, 'd) io) \<Rightarrow> ('a, 'd) io" where
  "try_except body handler =
     (case fst body of
        Inl e \<Rightarrow> (fst (handler e), snd body @ snd (handler e))
      | Inr x \<Rightarrow> (Inr x, snd body))"

text \<open>\<open>print(x, file=s)\<close> writes \<open>x\<close> and a newline.\<close>

definition print :: "stream \<Rightarrow> string \<Rightarrow> (unit, 'd) io" where
  "print s x = (Inr (), [Write s (x @ [CHR 0x0A])])"

definition path_resolve :: "'d world \<Rightarrow> path \<Rightarrow> (path, 'd) io" where
  "path_resolve w p = (Inr (fs_resolve w p), [PathResolve p])"

definition path_exists :: "'d world \<Rightarrow> path \<Rightarrow> (bool, 'd) io" where
  "path_exists w p = (fs_exists w p, [PathExists p])"

definition sf_read :: "'d world \<Rightarrow> path \<Rightarrow> ('d \<times> nat, 'd) io" where
  "sf_read w p = (soundfile_read w p, [SfRead p])"

definition sd_play :: "'d world \<Rightarrow> 'd \<Rightarrow> nat \<Rightarrow> (unit, 'd) io" where
  "sd_play w d r =
     ((case sounddevice_play w d r of Some e \<Rightarrow> Inl e | None \<Rightarrow> Inr ()), [SdPlay d r])"

definition sd_wait :: "'d world \<Rightarrow> (unit, 'd) io" where
  "sd_wait w = ((case sounddevice_wait w of Some e \<Rightarrow> Inl e | None \<Rightarrow> Inr ()), [SdWait])"

definition os_getenv :: "'d world \<Rightarrow> string \<Rightarrow> (string option, 'd) io" where
  "os_getenv w k = (Inr (environ w k), [OsGetenv k])"

definition path_cwd :: "'d world \<Rightarrow> (path, 'd) io" where
  "path_cwd w = (cwd w, [PathCwd])"

definition datetime_now :: "'d world \<Rightarrow> (datetime, 'd) io" where
  "datetime_now w = (Inr (clock w), [DatetimeNow])"

definition requests_post ::
  "'d world \<Rightarrow> string \<Rightarrow> (string \<times> string option) list \<Rightarrow> nat \<Rightarrow> (nat, 'd) io" where
  "requests_post w url json timeout = (http_post w url json timeout, [RequestsPost url json timeout])"

text \<open>\<open>xs[i]\<close> and \<open>d[k]\<close>, which raise out of range and on a missing key.\<close>

definition getitem :: "'a list \<Rightarrow> nat \<Rightarrow> ('a, 'd) io" where
  "getitem xs i = (if i < length xs then io_return (xs ! i) else io_raise ''list index out of range'')"

definition lookup :: "(string \<rightharpoonup> 'a) \<Rightarrow> string \<Rightarrow> ('a, 'd) io" where
  "lookup d k =
     (case d k of Some v \<Rightarrow> io_return v | None \<Rightarrow> io_raise ([CHR 0x27] @ k @ [CHR 0x27]))"

subsection \<open>Values and formatting\<close>

text \<open>Truth value of an \<open>Optional[str]\<close>: \<open>None\<close> and the empty string are false.\<close>

fun truthy :: "string option \<Rightarrow> bool" where
  "truthy None = False"
| "truthy (Some s) = (s \<noteq> [])"

text \<open>An \<open>Optional[str]\<close> inside an f-string.\<close>

fun format_opt :: "string option \<Rightarrow> string" where
  "format_opt None = ''None''"
| "format_opt (Some s) = s"

text \<open>Decimal digits, and the two-digit zero-padded fields \<open>%H\<close>, \<open>%M\<close>, \<open>%S\<close>.\<close>

definition digit_char :: "nat \<Rightarrow> char" where
  "digit_char d = ''0123456789'' ! d"

fun str_nat :: "nat \<Rightarrow> string" where
  "str_nat n = (if n < 10 then [digit_char n] else str_nat (n div 10) @ [digit_char (n mod 10)])"

declare str_nat.simps [simp del]

definition zero_pad2 :: "nat \<Rightarrow> string" where
  "zero_pad2 n = replicate (2 - length (str_nat n)) CHR ''0'' @ str_nat n"

text \<open>\<open>f"{t:%H:%M:%S}"\<close>.\<close>

definition format_HMS :: "datetime \<Rightarrow> string" where
  "format_HMS t = zero_pad2 (hour t) @ '':'' @ zero_pad2 (minute t) @ '':'' @ zero_pad2 (second t)"

text \<open>The check mark U+2713 that opens the message, as its three bytes in UTF-8.\<close>

definition check_mark :: string where
  "check_mark = [CHR 0xE2, CHR 0x9C, CHR 0x93]"

subsection \<open>The script\<close>

definition play_sound_file :: "'d world \<Rightarrow> path \<Rightarrow> (bool, 'd) io" where
  "play_sound_file w sound_file =
     io_bind (path_exists w sound_file) (\<lambda>found.
     if \<not> found then
       io_then (print Stderr (''Warning: Sound file not found: '' @ path_str sound_file))
               (io_return False)
     else
       try_except
         (io_bind (sf_read w sound_file) (\<lambda>(data, samplerate).
          io_then (sd_play w data samplerate)
         (io_then (sd_wait w)
                  (io_return True))))
         (\<lambda>e. io_then (print Stderr (''Error playing sound: '' @ e))
                       (io_return False)))"

definition send_telegram :: "'d world \<Rightarrow> string \<Rightarrow> (unit, 'd) io" where
  "send_telegram w event =
     (if event \<noteq> ''complete'' then io_return ()
      else
        io_bind (os_getenv w ''TELEGRAM_BOT_TOKEN'') (\<lambda>bot_token.
        io_bind (os_getenv w ''TELEGRAM_CHAT_ID'') (\<lambda>chat_id.
        if \<not> (truthy bot_token \<and> truthy chat_id) then io_return ()
        else
          io_bind (path_cwd w) (\<lambda>here.
          io_bind (datetime_now w) (\<lambda>now.
          let message = check_mark @ '' Claude Code done in '' @ [CHR 0x27] @ path_name here
                          @ [CHR 0x27] @ '' at '' @ format_HMS now
          in try_except
               (io_then (requests_post w
                           (''https://api.telegram.org/bot'' @ format_opt bot_token @ ''/sendMessage'')
                           [(''chat_id'', chat_id), (''text'', Some message)]
                           5)
                        (io_return ()))
               (\<lambda>e. io_return ()))))))"

text \<open>The dictionary \<open>sound_files\<close> of \<open>main\<close>, built from \<open>sounds_dir\<close>.\<close>

definition sound_files :: "path \<Rightarrow> (string \<rightharpoonup> path)" where
  "sound_files sounds_dir =
     [''input'' \<mapsto> path_joinpath sounds_dir ''input-needed.ogg'',
      ''complete'' \<mapsto> path_joinpath sounds_dir ''complete.ogg'']"

text \<open>
  The test of the first line of \<open>main\<close>: \<open>or\<close> reads \<open>sys.argv[1]\<close> only when the length
  is 2.
\<close>

definition bad_usage :: "string list \<Rightarrow> bool" where
  "bad_usage argv =
     (if length argv \<noteq> 2 then True else argv ! 1 \<notin> set [''input'', ''complete''])"

definition main :: "'d world \<Rightarrow> (int, 'd) io" where
  "main w =
     (if bad_usage (sys_argv w) then
        io_bind (getitem (sys_argv w) 0) (\<lambda>prog.
        io_then (print Stderr (''Usage: '' @ prog @ '' {input|complete}''))
       (io_then (print Stderr ''  input    - Play sound when Claude needs user input'')
       (io_then (print Stderr ''  complete - Play sound when Claude completes tasks'')
                (io_return 1))))
      else
        io_bind (getitem (sys_argv w) 1) (\<lambda>event.
        io_bind (path_resolve w (dunder_file w)) (\<lambda>resolved.
        let script_dir = path_parent resolved;
            sounds_dir = path_joinpath script_dir ''sounds''
        in io_bind (lookup (sound_files sounds_dir) event) (\<lambda>sound_file.
           io_then (play_sound_file w sound_file)
          (io_then (send_telegram w event)
                   (io_return 0))))))"

text \<open>What a list of calls wrote to a stream, in order.\<close>

fun written :: "stream \<Rightarrow> 'd effect list \<Rightarrow> string" where
  "written s [] = []"
| "written s (Write s' x # t) = (if s' = s then x @ written s t else written s t)"
| "written s (_ # t) = written s t"

subsection \<open>Sample worlds\<close>

text \<open>
  A host where everything works and nothing is configured: the script is installed as
  \<open>/opt/hooks/notify.py\<close> and called with \<open>complete\<close> from \<open>/home/dev/proj\<close> at
  09:05:03, every file exists and decodes, the device plays, no variable is set, and the
  remote end would answer 200.
\<close>

definition base_world :: "nat list world" where
  "base_world =
     \<lparr> sys_argv = [''notify.py'', ''complete''],
       dunder_file = Path True [''opt'', ''hooks'', ''notify.py''],
       fs_resolve = (\<lambda>p. p),
       fs_exists = (\<lambda>p. Inr True),
       soundfile_read = (\<lambda>p. Inr ([0, 1], 44100)),
       sounddevice_play = (\<lambda>d r. None),
       sounddevice_wait = None,
       environ = (\<lambda>k. None),
       cwd = Inr (Path True [''home'', ''dev'', ''proj'']),
       clock = \<lparr> hour = 9, minute = 5, second = 3 \<rparr>,
       http_post = (\<lambda>url json timeout. Inr 200) \<rparr>"

text \<open>The same host with both variables of the Telegram bot set.\<close>

definition configured_world :: "nat list world" where
  "configured_world =
     base_world \<lparr> environ := [''TELEGRAM_BOT_TOKEN'' \<mapsto> ''123:abc'', ''TELEGRAM_CHAT_ID'' \<mapsto> ''42''] \<rparr>"

text \<open>
  The configured host after the working directory has been removed: \<open>Path.cwd()\<close>
  raises \<open>FileNotFoundError\<close>.
\<close>

definition removed_cwd_world :: "nat list world" where
  "removed_cwd_world =
     configured_world \<lparr> cwd := Inl ''[Errno 2] No such file or directory'' \<rparr>"

text \<open>
  A host of Python 3.10 to 3.12 on a filesystem whose names have at most 255 characters:
  on a longer name, which no file has, \<open>stat\<close> fails with \<open>ENAMETOOLONG\<close> and \<open>exists()\<close>
  passes the \<open>OSError\<close> on.
\<close>

definition long_name_world :: "nat list world" where
  "long_name_world =
     base_world
       \<lparr> fs_exists := (\<lambda>p. if 255 < length (path_name p)
                            then Inl (''[Errno 36] File name too long: '' @ [CHR 0x27] @ path_str p @ [CHR 0x27])
                            else Inr False) \<rparr>"

section \<open>Properties\<close>

subsection \<open>Auxiliary facts\<close>

lemmas io_defs = io_return_def io_raise_def io_bind_def io_then_def try_except_def print_def
  path_resolve_def path_exists_def sf_read_def sd_play_def sd_wait_def os_getenv_def
  path_cwd_def datetime_now_def requests_post_def getitem_def lookup_def

lemma written_append: "written s (t @ u) = written s t @ written s u"
  by (induction s t rule: written.induct) simp_all

lemma join_snoc: "xs \<noteq> [] \<Longrightarrow> join sep (xs @ [y]) = join sep xs @ sep @ y"
  by (induction sep xs rule: join.induct) auto

lemma io_then_returns: "fst m = Inr x \<Longrightarrow> io_then m k = (fst k, snd m @ snd k)"
  by (simp add: io_then_def io_bind_def)

lemma io_then_raises: "fst m = Inl e \<Longrightarrow> io_then m k = (Inl e, snd m)"
  by (simp add: io_then_def io_bind_def)

lemma written_io_then:
  "written s (snd m) = [] \<Longrightarrow> written s (snd k) = [] \<Longrightarrow> written s (snd (io_then m k)) = []"
  by (cases "fst m") (simp_all add: io_then_returns io_then_raises written_append)

text \<open>The six ways through \<open>play_sound_file\<close>.\<close>

lemma play_exists_raises:
  "fs_exists w p = Inl e \<Longrightarrow> play_sound_file w p = (Inl e, [PathExists p])"
  by (simp add: play_sound_file_def io_defs)

lemma play_missing:
  "fs_exists w p = Inr False \<Longrightarrow>
   play_sound_file w p =
     (Inr False,
      [PathExists p, Write Stderr (''Warning: Sound file not found: '' @ path_str p @ [CHR 0x0A])])"
  by (simp add: play_sound_file_def io_defs)

lemma play_read_fault:
  "fs_exists w p = Inr True \<Longrightarrow> soundfile_read w p = Inl e \<Longrightarrow>
   play_sound_file w p =
     (Inr False,
      [PathExists p, SfRead p, Write Stderr (''Error playing sound: '' @ e @ [CHR 0x0A])])"
  by (simp add: play_sound_file_def io_defs)

lemma play_play_fault:
  "fs_exists w p = Inr True \<Longrightarrow> soundfile_read w p = Inr (d, r) \<Longrightarrow>
   sounddevice_play w d r = Some e \<Longrightarrow>
   play_sound_file w p =
     (Inr False,
      [PathExists p, SfRead p, SdPlay d r,
       Write Stderr (''Error playing sound: '' @ e @ [CHR 0x0A])])"
  by (simp add: play_sound_file_def io_defs)

lemma play_wait_fault:
  "fs_exists w p = Inr True \<Longrightarrow> soundfile_read w p = Inr (d, r) \<Longrightarrow>
   sounddevice_play w d r = None \<Longrightarrow> sounddevice_wait w = Some e \<Longrightarrow>
   play_sound_file w p =
     (Inr False,
      [PathExists p, SfRead p, SdPlay d r, SdWait,
       Write Stderr (''Error playing sound: '' @ e @ [CHR 0x0A])])"
  by (simp add: play_sound_file_def io_defs)

lemma play_ok:
  "fs_exists w p = Inr True \<Longrightarrow> soundfile_read w p = Inr (d, r) \<Longrightarrow>
   sounddevice_play w d r = None \<Longrightarrow> sounddevice_wait w = None \<Longrightarrow>
   play_sound_file w p = (Inr True, [PathExists p, SfRead p, SdPlay d r, SdWait])"
  by (simp add: play_sound_file_def io_defs)

text \<open>
  Once \<open>exists()\<close> has answered, \<open>play_sound_file\<close> returns; and it leaves standard
  output alone in any case.
\<close>

lemma play_found_shape:
  assumes ex: "fs_exists w p = Inr True"
  shows "(fst (play_sound_file w p) = Inr True \<or> fst (play_sound_file w p) = Inr False) \<and>
         written Stdout (snd (play_sound_file w p)) = []"
proof (cases "soundfile_read w p")
  case (Inl e)
  then show ?thesis by (simp add: play_read_fault [OF ex])
next
  case (Inr dr)
  then obtain d r where rd: "soundfile_read w p = Inr (d, r)" by (cases dr) simp
  show ?thesis
  proof (cases "sounddevice_play w d r")
    case (Some e)
    then show ?thesis by (simp add: play_play_fault [OF ex rd])
  next
    case pl: None
    show ?thesis
    proof (cases "sounddevice_wait w")
      case (Some e)
      then show ?thesis by (simp add: play_wait_fault [OF ex rd pl])
    next
      case None
      then show ?thesis by (simp add: play_ok [OF ex rd pl])
    qed
  qed
qed

lemma play_returns:
  assumes "fs_exists w p = Inr found"
  shows "fst (play_sound_file w p) = Inr True \<or> fst (play_sound_file w p) = Inr False"
proof (cases found)
  case True
  then show ?thesis using assms play_found_shape [of w p] by simp
next
  case False
  then show ?thesis using assms by (simp add: play_missing)
qed

lemma play_stdout: "written Stdout (snd (play_sound_file w p)) = []"
proof (cases "fs_exists w p")
  case (Inl e)
  then show ?thesis by (simp add: play_exists_raises)
next
  case (Inr found)
  show ?thesis
  proof (cases found)
    case True
    then show ?thesis using Inr play_found_shape [of w p] by simp
  next
    case False
    then show ?thesis using Inr by (simp add: play_missing)
  qed
qed

text \<open>The ways through \<open>send_telegram\<close> on \<open>complete\<close>; it writes to no stream.\<close>

lemma telegram_unconfigured:
  assumes "environ w ''TELEGRAM_BOT_TOKEN'' = None \<or> environ w ''TELEGRAM_BOT_TOKEN'' = Some [] \<or>
           environ w ''TELEGRAM_CHAT_ID'' = None \<or> environ w ''TELEGRAM_CHAT_ID'' = Some []"
  shows "send_telegram w ''complete'' =
           (Inr (), [OsGetenv ''TELEGRAM_BOT_TOKEN'', OsGetenv ''TELEGRAM_CHAT_ID''])"
proof -
  have "\<not> (truthy (environ w ''TELEGRAM_BOT_TOKEN'') \<and> truthy (environ w ''TELEGRAM_CHAT_ID''))"
    using assms by auto
  then show ?thesis
    by (simp add: send_telegram_def os_getenv_def io_bind_def io_return_def)
qed

lemma telegram_configured:
  assumes "environ w ''TELEGRAM_BOT_TOKEN'' = Some token" "token \<noteq> []"
    and "environ w ''TELEGRAM_CHAT_ID'' = Some chat" "chat \<noteq> []"
    and "cwd w = Inr here"
  shows "send_telegram w ''complete'' =
           (Inr (),
            [OsGetenv ''TELEGRAM_BOT_TOKEN'', OsGetenv ''TELEGRAM_CHAT_ID'', PathCwd, DatetimeNow,
             RequestsPost (''https://api.telegram.org/bot'' @ token @ ''/sendMessage'')
               [(''chat_id'', Some chat),
                (''text'', Some (check_mark @ '' Claude Code done in '' @ [CHR 0x27] @
                                 path_name here @ [CHR 0x27] @ '' at '' @ format_HMS (clock w)))]
               5])"
  using assms
  by (simp add: send_telegram_def io_defs Let_def split: sum.split)

lemma telegram_cwd_raises:
  assumes "environ w ''TELEGRAM_BOT_TOKEN'' = Some token" "token \<noteq> []"
    and "environ w ''TELEGRAM_CHAT_ID'' = Some chat" "chat \<noteq> []"
    and "cwd w = Inl e"
  shows "send_telegram w ''complete'' =
           (Inl e, [OsGetenv ''TELEGRAM_BOT_TOKEN'', OsGetenv ''TELEGRAM_CHAT_ID'', PathCwd])"
  using assms
  by (simp add: send_telegram_def io_defs)

lemma post_swallowed:
  "try_except (io_then (r, t) (io_return ())) (\<lambda>e. io_return ()) = (Inr (), t)"
  by (cases r) (simp_all add: try_except_def io_then_def io_bind_def io_return_def)

lemmas post_swallowed' = post_swallowed [unfolded io_return_def]

lemma telegram_other: "event \<noteq> ''complete'' \<Longrightarrow> send_telegram w event = (Inr (), [])"
  by (simp add: send_telegram_def io_return_def)

lemma telegram_silent: "written s (snd (send_telegram w event)) = []"
  by (simp add: send_telegram_def requests_post_def post_swallowed' Let_def
      os_getenv_def path_cwd_def datetime_now_def io_bind_def io_return_def split: sum.split)

lemma telegram_returns:
  assumes "event \<noteq> ''complete'' \<or>
           \<not> (truthy (environ w ''TELEGRAM_BOT_TOKEN'') \<and> truthy (environ w ''TELEGRAM_CHAT_ID'')) \<or>
           (\<exists>here. cwd w = Inr here)"
  shows "fst (send_telegram w event) = Inr ()"
proof -
  consider (other) "event \<noteq> ''complete''"
    | (unset) "event = ''complete''"
        "\<not> (truthy (environ w ''TELEGRAM_BOT_TOKEN'') \<and> truthy (environ w ''TELEGRAM_CHAT_ID''))"
    | (here) here where "event = ''complete''" "cwd w = Inr here"
    using assms by blast
  then show ?thesis
  proof cases
    case other
    then show ?thesis by (simp add: telegram_other)
  next
    case unset
    then show ?thesis
      by (simp add: send_telegram_def os_getenv_def io_bind_def io_return_def)
  next
    case here
    then show ?thesis
      by (simp add: send_telegram_def requests_post_def post_swallowed' Let_def
          os_getenv_def path_cwd_def datetime_now_def io_bind_def io_return_def)
  qed
qed

text \<open>What \<open>requests.post\<close> answers has no part in what the two operations do.\<close>

lemma telegram_ignores_answer:
  "send_telegram (w \<lparr> http_post := f \<rparr>) event = send_telegram w event"
  by (simp add: send_telegram_def requests_post_def post_swallowed Let_def
      path_cwd_def datetime_now_def os_getenv_def cong: if_cong)

lemma play_ignores_answer: "play_sound_file (w \<lparr> http_post := f \<rparr>) p = play_sound_file w p"
  by (simp add: play_sound_file_def path_exists_def sf_read_def sd_play_def sd_wait_def
      cong: if_cong)

text \<open>Below 100, so for every field of a clock, \<open>zero_pad2\<close> gives the two decimal digits.\<close>

lemma zero_pad2_two_digits:
  assumes "n < 100"
  shows "zero_pad2 n = [digit_char (n div 10), digit_char (n mod 10)]"
proof (cases "n < 10")
  case True
  then show ?thesis by (simp add: zero_pad2_def str_nat.simps [of n] digit_char_def)
next
  case False
  then have "n div 10 < 10" using assms by simp
  then have "str_nat n = [digit_char (n div 10), digit_char (n mod 10)]"
    using False by (simp add: str_nat.simps [of n] str_nat.simps [of "n div 10"])
  then show ?thesis by (simp add: zero_pad2_def)
qed

text \<open>The path of a file in a directory ends in the two names.\<close>

lemma join_two_last:
  "suffix (s @ sep @ x) (join sep (qs @ [s, x]))"
proof (cases "qs = []")
  case True
  then show ?thesis by simp
next
  case False
  have "join sep (qs @ [s, x]) = join sep ((qs @ [s]) @ [x])" by simp
  also have "\<dots> = join sep (qs @ [s]) @ sep @ x" by (rule join_snoc) simp
  also have "\<dots> = (join sep qs @ sep) @ (s @ sep @ x)" using False by (simp add: join_snoc)
  finally show ?thesis by (simp only: suffixI)
qed

lemma path_str_two_last:
  "suffix (s @ ''/'' @ x) (path_str (Path a (qs @ [s, x])))"
proof (cases a)
  case True
  then show ?thesis using join_two_last [of s "''/''" x qs] by (simp add: suffix_Cons)
next
  case False
  then show ?thesis using join_two_last [of s "''/''" x qs] by simp
qed

text \<open>The ways through \<open>main\<close>.\<close>

lemma bad_usage_Cons:
  "bad_usage (prog # args) \<longleftrightarrow> args \<noteq> [''input''] \<and> args \<noteq> [''complete'']"
proof (cases args)
  case Nil
  then show ?thesis by (simp add: bad_usage_def)
next
  case (Cons a rest)
  then show ?thesis by (cases rest) (auto simp add: bad_usage_def)
qed

lemma main_usage:
  assumes "sys_argv w = prog # args" "args \<noteq> [''input'']" "args \<noteq> [''complete'']"
  shows "main w =
           (Inr 1,
            [Write Stderr (''Usage: '' @ prog @ '' {input|complete}'' @ [CHR 0x0A]),
             Write Stderr (''  input    - Play sound when Claude needs user input'' @ [CHR 0x0A]),
             Write Stderr (''  complete - Play sound when Claude completes tasks'' @ [CHR 0x0A])])"
proof -
  have "bad_usage (sys_argv w)" using assms by (simp add: bad_usage_Cons)
  then show ?thesis using assms(1) by (simp add: main_def io_defs)
qed

lemma main_no_argv:
  assumes "sys_argv w = []"
  shows "main w = (Inl ''list index out of range'', [])"
  using assms by (simp add: main_def bad_usage_def io_defs)

lemma sound_files_input:
  "sound_files d ''input'' = Some (path_joinpath d ''input-needed.ogg'')"
  by (simp add: sound_files_def)

lemma sound_files_complete:
  "sound_files d ''complete'' = Some (path_joinpath d ''complete.ogg'')"
  by (simp add: sound_files_def)

text \<open>
  On a well-formed call, \<open>main\<close> is the resolution of \<open>__file__\<close> followed by the two
  operations and \<open>return 0\<close>.
\<close>

lemma main_sequence:
  assumes "sys_argv w = [prog, event]"
    and "event = ''input'' \<or> event = ''complete''"
    and "sound_files (path_joinpath (path_parent (fs_resolve w (dunder_file w))) ''sounds'') event
           = Some sound_file"
  shows "main w =
           io_then (path_resolve w (dunder_file w))
          (io_then (play_sound_file w sound_file)
          (io_then (send_telegram w event)
                   (io_return 0)))"
proof -
  have ok: "\<not> bad_usage (sys_argv w)"
    using assms(1,2) by (auto simp add: bad_usage_Cons)
  show ?thesis
    using ok assms(1,3)
    by (simp add: main_def Let_def getitem_def lookup_def path_resolve_def io_then_def
        io_bind_def io_return_def)
qed

lemma io_then_Inr: "io_then (Inr x, t) k = (fst k, t @ snd k)"
  by (simp add: io_then_def io_bind_def)

lemma main_dispatch:
  assumes "sys_argv w = [prog, event]"
    and "event = ''input'' \<or> event = ''complete''"
    and "sound_files (path_joinpath (path_parent (fs_resolve w (dunder_file w))) ''sounds'') event
           = Some sound_file"
    and "fst (play_sound_file w sound_file) = Inr b"
    and "fst (send_telegram w event) = Inr ()"
  shows "main w =
           (Inr 0,
            PathResolve (dunder_file w) #
            snd (play_sound_file w sound_file) @ snd (send_telegram w event))"
  by (simp add: main_sequence [OF assms(1-3)] io_then_returns [OF assms(4)]
      io_then_returns [OF assms(5)] io_then_Inr
      path_resolve_def io_return_def)

lemma main_play_raises:
  assumes "sys_argv w = [prog, event]"
    and "event = ''input'' \<or> event = ''complete''"
    and "sound_files (path_joinpath (path_parent (fs_resolve w (dunder_file w))) ''sounds'') event
           = Some sound_file"
    and "fst (play_sound_file w sound_file) = Inl e"
  shows "main w = (Inl e, PathResolve (dunder_file w) # snd (play_sound_file w sound_file))"
  by (simp add: main_sequence [OF assms(1-3)] io_then_raises [OF assms(4)]
      io_then_Inr path_resolve_def)

lemma main_telegram_raises:
  assumes "sys_argv w = [prog, event]"
    and "event = ''input'' \<or> event = ''complete''"
    and "sound_files (path_joinpath (path_parent (fs_resolve w (dunder_file w))) ''sounds'') event
           = Some sound_file"
    and "fst (play_sound_file w sound_file) = Inr b"
    and "fst (send_telegram w event) = Inl e"
  shows "main w =
           (Inl e,
            PathResolve (dunder_file w) #
            snd (play_sound_file w sound_file) @ snd (send_telegram w event))"
  by (simp add: main_sequence [OF assms(1-3)] io_then_returns [OF assms(4)]
      io_then_raises [OF assms(5)] io_then_Inr
      path_resolve_def)

subsection \<open>The entry point\<close>

text \<open>
  Claim C1, as amended. That \<open>main\<close> returns 0 on every well-formed call fails: with
  \<open>complete\<close>, both variables set and the working directory removed, \<open>Path.cwd()\<close>
  raises before the \<open>try\<close> of \<open>send_telegram\<close>, and the exception leaves \<open>main\<close> after the
  sound was played. What holds: when \<open>main\<close> is
  called with exactly one argument which is \<open>input\<close> or \<open>complete\<close>, \<open>exists()\<close> answers
  on the sound file of the event, and \<open>Path.cwd()\<close> returns in case the notification is
  to be sent (\<open>complete\<close> with both variables set and not empty), then \<open>main\<close> runs
  \<open>play_sound_file\<close> on the sound file, then \<open>send_telegram\<close> on the event, and returns 0,
  whatever these two do: with a missing file, a failed playback, the variables unset, or
  a failed request.
\<close>

theorem main_handles_event:
  assumes "sys_argv w = [prog, event]"
    and "event = ''input'' \<or> event = ''complete''"
    and "sound_files (path_joinpath (path_parent (fs_resolve w (dunder_file w))) ''sounds'') event
           = Some sound_file"
    and "fs_exists w sound_file = Inr found"
    and "event = ''input'' \<or>
         environ w ''TELEGRAM_BOT_TOKEN'' = None \<or> environ w ''TELEGRAM_BOT_TOKEN'' = Some [] \<or>
         environ w ''TELEGRAM_CHAT_ID'' = None \<or> environ w ''TELEGRAM_CHAT_ID'' = Some [] \<or>
         (\<exists>here. cwd w = Inr here)"
  shows "main w =
           (Inr 0,
            PathResolve (dunder_file w) #
            snd (play_sound_file w sound_file) @ snd (send_telegram w event))"
proof -
  obtain b where pl: "fst (play_sound_file w sound_file) = Inr b"
    using play_returns [OF assms(4)] by blast
  have "event \<noteq> ''complete'' \<or>
        \<not> (truthy (environ w ''TELEGRAM_BOT_TOKEN'') \<and> truthy (environ w ''TELEGRAM_CHAT_ID'')) \<or>
        (\<exists>here. cwd w = Inr here)"
    using assms(5) by auto
  then have tg: "fst (send_telegram w event) = Inr ()"
    by (rule telegram_returns)
  show ?thesis by (rule main_dispatch [OF assms(1-3) pl tg])
qed

theorem main_handles_event_witness:
  "main (base_world \<lparr> sounddevice_play := (\<lambda>d r. Some ''Audio device error'') \<rparr>) =
     (Inr 0,
      [PathResolve (Path True [''opt'', ''hooks'', ''notify.py'']),
       PathExists (Path True [''opt'', ''hooks'', ''sounds'', ''complete.ogg'']),
       SfRead (Path True [''opt'', ''hooks'', ''sounds'', ''complete.ogg'']),
       SdPlay [0, 1] 44100,
       Write Stderr (''Error playing sound: Audio device error'' @ [CHR 0x0A]),
       OsGetenv ''TELEGRAM_BOT_TOKEN'',
       OsGetenv ''TELEGRAM_CHAT_ID''])"
proof -
  let ?w = "base_world \<lparr> sounddevice_play := (\<lambda>d r. Some ''Audio device error'') \<rparr>"
  let ?p = "Path True [''opt'', ''hooks'', ''sounds'', ''complete.ogg'']"
  have a: "sys_argv ?w = [''notify.py'', ''complete'']" by (simp add: base_world_def)
  have b: "''complete'' = ''input'' \<or> ''complete'' = ''complete''" by simp
  have f: "sound_files (path_joinpath (path_parent (fs_resolve ?w (dunder_file ?w))) ''sounds'')
             ''complete'' = Some ?p"
    by (simp add: sound_files_complete base_world_def)
  have x: "fs_exists ?w ?p = Inr True" by (simp add: base_world_def)
  have u: "''complete'' = ''input'' \<or>
         environ ?w ''TELEGRAM_BOT_TOKEN'' = None \<or> environ ?w ''TELEGRAM_BOT_TOKEN'' = Some [] \<or>
         environ ?w ''TELEGRAM_CHAT_ID'' = None \<or> environ ?w ''TELEGRAM_CHAT_ID'' = Some [] \<or>
         (\<exists>here. cwd ?w = Inr here)"
    by (simp add: base_world_def)
  note m = main_handles_event [OF a b f x u]
  have pl: "play_sound_file ?w ?p =
      (Inr False, [PathExists ?p, SfRead ?p, SdPlay [0, 1] 44100,
                   Write Stderr (''Error playing sound: '' @ ''Audio device error'' @ [CHR 0x0A])])"
    by (rule play_play_fault) (simp_all add: base_world_def)
  have tg: "send_telegram ?w ''complete'' =
      (Inr (), [OsGetenv ''TELEGRAM_BOT_TOKEN'', OsGetenv ''TELEGRAM_CHAT_ID''])"
    by (rule telegram_unconfigured) (simp add: base_world_def)
  have df: "dunder_file ?w = Path True [''opt'', ''hooks'', ''notify.py'']"
    by (simp add: base_world_def)
  show ?thesis
    unfolding m pl tg df by simp
qed

text \<open>
  The well-formed call on which \<open>main\<close> does not return 0: the sound is played, the two
  variables are read, and \<open>Path.cwd()\<close> raises out of \<open>send_telegram\<close> and \<open>main\<close>.
\<close>

theorem main_handles_event_counterexample:
  "sys_argv removed_cwd_world = [''notify.py'', ''complete''] \<and>
   fst (main removed_cwd_world) \<noteq> Inr 0 \<and>
   main removed_cwd_world =
     (Inl ''[Errno 2] No such file or directory'',
      [PathResolve (Path True [''opt'', ''hooks'', ''notify.py'']),
       PathExists (Path True [''opt'', ''hooks'', ''sounds'', ''complete.ogg'']),
       SfRead (Path True [''opt'', ''hooks'', ''sounds'', ''complete.ogg'']),
       SdPlay [0, 1] 44100,
       SdWait,
       OsGetenv ''TELEGRAM_BOT_TOKEN'',
       OsGetenv ''TELEGRAM_CHAT_ID'',
       PathCwd])"
proof -
  let ?w = "removed_cwd_world"
  let ?p = "Path True [''opt'', ''hooks'', ''sounds'', ''complete.ogg'']"
  have a: "sys_argv ?w = [''notify.py'', ''complete'']"
    by (simp add: removed_cwd_world_def configured_world_def base_world_def)
  have f: "sound_files (path_joinpath (path_parent (fs_resolve ?w (dunder_file ?w))) ''sounds'')
             ''complete'' = Some ?p"
    by (simp add: sound_files_complete removed_cwd_world_def configured_world_def base_world_def)
  have pl: "play_sound_file ?w ?p = (Inr True, [PathExists ?p, SfRead ?p, SdPlay [0, 1] 44100, SdWait])"
    by (rule play_ok)
      (simp_all add: removed_cwd_world_def configured_world_def base_world_def)
  have tg: "send_telegram ?w ''complete'' =
      (Inl ''[Errno 2] No such file or directory'',
       [OsGetenv ''TELEGRAM_BOT_TOKEN'', OsGetenv ''TELEGRAM_CHAT_ID'', PathCwd])"
    by (rule telegram_cwd_raises [where token = "''123:abc''" and chat = "''42''"])
      (simp_all add: removed_cwd_world_def configured_world_def)
  have df: "dunder_file ?w = Path True [''opt'', ''hooks'', ''notify.py'']"
    by (simp add: removed_cwd_world_def configured_world_def base_world_def)
  have m: "main ?w =
     (Inl ''[Errno 2] No such file or directory'',
      PathResolve (dunder_file ?w) # snd (play_sound_file ?w ?p) @ snd (send_telegram ?w ''complete''))"
    by (rule main_telegram_raises [OF a _ f]) (simp_all add: pl tg)
  have r: "main ?w =
     (Inl ''[Errno 2] No such file or directory'',
      [PathResolve (Path True [''opt'', ''hooks'', ''notify.py'']),
       PathExists ?p, SfRead ?p, SdPlay [0, 1] 44100, SdWait,
       OsGetenv ''TELEGRAM_BOT_TOKEN'', OsGetenv ''TELEGRAM_CHAT_ID'', PathCwd])"
    unfolding m pl tg df by simp
  have "fst (main ?w) \<noteq> Inr 0" unfolding r by simp
  with a r show ?thesis by (intro conjI)
qed

text \<open>
  Claim C2. When \<open>main\<close> is called with anything but exactly one of the two keywords
  after the program name (no argument, several arguments, or one unknown argument), it
  writes the three usage lines to the error stream, the first of which contains the
  program name and \<open>{input|complete}\<close>, and returns 1. These three writes are all the
  calls it makes: nothing is played and nothing is sent.
\<close>

theorem main_usage_error:
  assumes "sys_argv w = prog # args"
    and "args \<noteq> [''input'']"
    and "args \<noteq> [''complete'']"
  shows "main w =
           (Inr 1,
            [Write Stderr (''Usage: '' @ prog @ '' {input|complete}'' @ [CHR 0x0A]),
             Write Stderr (''  input    - Play sound when Claude needs user input'' @ [CHR 0x0A]),
             Write Stderr (''  complete - Play sound when Claude completes tasks'' @ [CHR 0x0A])]) \<and>
         sublist prog (written Stderr (snd (main w))) \<and>
         sublist ''{input|complete}'' (written Stderr (snd (main w)))"
proof -
  note run = main_usage [OF assms]
  let ?rest = "[CHR 0x0A] @ ''  input    - Play sound when Claude needs user input'' @ [CHR 0x0A] @
               ''  complete - Play sound when Claude completes tasks'' @ [CHR 0x0A]"
  have out1: "written Stderr (snd (main w)) = ''Usage: '' @ prog @ ('' {input|complete}'' @ ?rest)"
    by (simp add: run)
  have out2: "written Stderr (snd (main w)) = (''Usage: '' @ prog @ '' '') @ ''{input|complete}'' @ ?rest"
    by (simp add: run)
  have "sublist prog (written Stderr (snd (main w)))"
    unfolding out1 by (rule sublist_appendI)
  moreover have "sublist ''{input|complete}'' (written Stderr (snd (main w)))"
    unfolding out2 by (rule sublist_appendI)
  ultimately show ?thesis using run by blast
qed

theorem main_usage_error_witness:
  "fst (main (base_world \<lparr> sys_argv := [''notify.py''] \<rparr>)) = Inr 1 \<and>
   fst (main (base_world \<lparr> sys_argv := [''notify.py'', ''invalid''] \<rparr>)) = Inr 1 \<and>
   fst (main (base_world \<lparr> sys_argv := [''notify.py'', ''input'', ''extra''] \<rparr>)) = Inr 1 \<and>
   sublist ''{input|complete}''
     (written Stderr (snd (main (base_world \<lparr> sys_argv := [''notify.py'', ''input'', ''extra''] \<rparr>))))"
proof -
  let ?w0 = "base_world \<lparr> sys_argv := [''notify.py''] \<rparr>"
  let ?w1 = "base_world \<lparr> sys_argv := [''notify.py'', ''invalid''] \<rparr>"
  let ?w3 = "base_world \<lparr> sys_argv := [''notify.py'', ''input'', ''extra''] \<rparr>"
  have a0: "sys_argv ?w0 = ''notify.py'' # []" by simp
  have a1: "sys_argv ?w1 = ''notify.py'' # [''invalid'']" by simp
  have a3: "sys_argv ?w3 = ''notify.py'' # [''input'', ''extra'']" by simp
  have n0: "[] \<noteq> [''input'']" "[] \<noteq> [''complete'']" by simp_all
  have n1: "[''invalid''] \<noteq> [''input'']" "[''invalid''] \<noteq> [''complete'']" by simp_all
  have n3: "[''input'', ''extra''] \<noteq> [''input'']" "[''input'', ''extra''] \<noteq> [''complete'']"
    by simp_all
  note r0 = main_usage_error [OF a0 n0]
  note r1 = main_usage_error [OF a1 n1]
  note r3 = main_usage_error [OF a3 n3]
  have "fst (main ?w0) = Inr 1" using r0 by (simp only: fst_conv)
  moreover have "fst (main ?w1) = Inr 1" using r1 by (simp only: fst_conv)
  moreover have "fst (main ?w3) = Inr 1" using r3 by (simp only: fst_conv)
  moreover have "sublist ''{input|complete}'' (written Stderr (snd (main ?w3)))"
    using r3 by (elim conjE)
  ultimately show ?thesis by (intro conjI)
qed

subsection \<open>The remote notification\<close>

text \<open>
  Claim C3, as amended. On \<open>complete\<close>, \<open>send_telegram\<close> reads the two variables. If one
  of them is unset or empty, it does nothing more: no request and no write. If both are
  set and not empty and \<open>Path.cwd()\<close> returns, it reads the working directory and the
  clock and makes one call of \<open>requests.post\<close>, with a timeout of 5 seconds, to the
  \<open>sendMessage\<close> address of the Telegram API (which carries the token), with the chat
  identifier and a text made of the check mark, the name of the working directory and
  the time as \<open>%H:%M:%S\<close>. In both cases the list of calls is complete, so there is at most
  one request and no retry. That both variables set is enough for the request fails:
  when the working directory has been removed, \<open>Path.cwd()\<close> raises before the \<open>try\<close> and
  nothing is posted.
\<close>

theorem send_telegram_complete:
  "(environ w ''TELEGRAM_BOT_TOKEN'' = None \<or> environ w ''TELEGRAM_BOT_TOKEN'' = Some [] \<or>
    environ w ''TELEGRAM_CHAT_ID'' = None \<or> environ w ''TELEGRAM_CHAT_ID'' = Some [] \<longrightarrow>
      send_telegram w ''complete'' =
        (Inr (), [OsGetenv ''TELEGRAM_BOT_TOKEN'', OsGetenv ''TELEGRAM_CHAT_ID''])) \<and>
   (environ w ''TELEGRAM_BOT_TOKEN'' = Some token \<and> token \<noteq> [] \<and>
    environ w ''TELEGRAM_CHAT_ID'' = Some chat \<and> chat \<noteq> [] \<and>
    cwd w = Inr here \<longrightarrow>
      send_telegram w ''complete'' =
        (Inr (),
         [OsGetenv ''TELEGRAM_BOT_TOKEN'', OsGetenv ''TELEGRAM_CHAT_ID'', PathCwd, DatetimeNow,
          RequestsPost (''https://api.telegram.org/bot'' @ token @ ''/sendMessage'')
            [(''chat_id'', Some chat),
             (''text'', Some (check_mark @ '' Claude Code done in '' @ [CHR 0x27] @
                              path_name here @ [CHR 0x27] @ '' at '' @
                              zero_pad2 (hour (clock w)) @ '':'' @
                              zero_pad2 (minute (clock w)) @ '':'' @
                              zero_pad2 (second (clock w))))]
            5]))"
  using telegram_unconfigured [of w] telegram_configured [of w token chat here]
  unfolding format_HMS_def by blast

theorem send_telegram_complete_witness:
  "send_telegram base_world ''complete'' =
     (Inr (), [OsGetenv ''TELEGRAM_BOT_TOKEN'', OsGetenv ''TELEGRAM_CHAT_ID'']) \<and>
   send_telegram (base_world \<lparr> environ := [''TELEGRAM_BOT_TOKEN'' \<mapsto> ''123:abc''] \<rparr>) ''complete'' =
     (Inr (), [OsGetenv ''TELEGRAM_BOT_TOKEN'', OsGetenv ''TELEGRAM_CHAT_ID'']) \<and>
   send_telegram configured_world ''complete'' =
     (Inr (),
      [OsGetenv ''TELEGRAM_BOT_TOKEN'', OsGetenv ''TELEGRAM_CHAT_ID'', PathCwd, DatetimeNow,
       RequestsPost ''https://api.telegram.org/bot123:abc/sendMessage''
         [(''chat_id'', Some ''42''),
          (''text'', Some (check_mark @ '' Claude Code done in '' @ [CHR 0x27] @ ''proj'' @
                           [CHR 0x27] @ '' at 09:05:03''))]
         5])"
proof -
  let ?half = "base_world \<lparr> environ := [''TELEGRAM_BOT_TOKEN'' \<mapsto> ''123:abc''] \<rparr>"
  let ?here = "Path True [''home'', ''dev'', ''proj'']"
  have u: "environ base_world ''TELEGRAM_BOT_TOKEN'' = None" by (simp add: base_world_def)
  have h: "environ ?half ''TELEGRAM_CHAT_ID'' = None" by simp
  have t: "environ configured_world ''TELEGRAM_BOT_TOKEN'' = Some ''123:abc''"
    and c: "environ configured_world ''TELEGRAM_CHAT_ID'' = Some ''42''"
    by (simp_all add: configured_world_def)
  have n: "''123:abc'' \<noteq> []" "''42'' \<noteq> []" by simp_all
  have d: "cwd configured_world = Inr ?here"
    by (simp add: configured_world_def base_world_def)
  have here: "path_name ?here = ''proj''" by simp
  have time: "zero_pad2 (hour (clock configured_world)) = ''09''"
    "zero_pad2 (minute (clock configured_world)) = ''05''"
    "zero_pad2 (second (clock configured_world)) = ''03''"
    by (simp_all add: configured_world_def base_world_def zero_pad2_two_digits digit_char_def)
  have 1: "send_telegram base_world ''complete'' =
     (Inr (), [OsGetenv ''TELEGRAM_BOT_TOKEN'', OsGetenv ''TELEGRAM_CHAT_ID''])"
    using send_telegram_complete [of base_world] u by blast
  have 2: "send_telegram ?half ''complete'' =
     (Inr (), [OsGetenv ''TELEGRAM_BOT_TOKEN'', OsGetenv ''TELEGRAM_CHAT_ID''])"
    using send_telegram_complete [of ?half] h by blast
  have 3: "send_telegram configured_world ''complete'' =
     (Inr (),
         [OsGetenv ''TELEGRAM_BOT_TOKEN'', OsGetenv ''TELEGRAM_CHAT_ID'', PathCwd, DatetimeNow,
          RequestsPost (''https://api.telegram.org/bot'' @ ''123:abc'' @ ''/sendMessage'')
            [(''chat_id'', Some ''42''),
             (''text'', Some (check_mark @ '' Claude Code done in '' @ [CHR 0x27] @
                              path_name ?here @ [CHR 0x27] @ '' at '' @
                              zero_pad2 (hour (clock configured_world)) @ '':'' @
                              zero_pad2 (minute (clock configured_world)) @ '':'' @
                              zero_pad2 (second (clock configured_world))))]
            5])"
    using send_telegram_complete [of configured_world "''123:abc''" "''42''" ?here] t c n d by blast
  show ?thesis
    using 1 2 3 unfolding here time by simp
qed

text \<open>
  Both variables are set and not empty, and no request is made: \<open>send_telegram\<close> raises
  after it has asked for the working directory.
\<close>

theorem send_telegram_complete_counterexample:
  "environ removed_cwd_world ''TELEGRAM_BOT_TOKEN'' = Some ''123:abc'' \<and>
   environ removed_cwd_world ''TELEGRAM_CHAT_ID'' = Some ''42'' \<and>
   send_telegram removed_cwd_world ''complete'' =
     (Inl ''[Errno 2] No such file or directory'',
      [OsGetenv ''TELEGRAM_BOT_TOKEN'', OsGetenv ''TELEGRAM_CHAT_ID'', PathCwd])"
proof -
  have t: "environ removed_cwd_world ''TELEGRAM_BOT_TOKEN'' = Some ''123:abc''"
    and c: "environ removed_cwd_world ''TELEGRAM_CHAT_ID'' = Some ''42''"
    by (simp_all add: removed_cwd_world_def configured_world_def)
  have n: "''123:abc'' \<noteq> []" and m: "''42'' \<noteq> []" by simp_all
  have d: "cwd removed_cwd_world = Inl ''[Errno 2] No such file or directory''"
    by (simp add: removed_cwd_world_def)
  from t c telegram_cwd_raises [OF t n c m d] show ?thesis by (intro conjI)
qed

text \<open>
  Claim C4. On \<open>complete\<close> with both variables set, once the working directory has been
  read and with a sound file on which \<open>exists()\<close> answers, whatever \<open>requests.post\<close> does
  (\<open>f\<close> is any behaviour of it: raising on a network error or a timeout, or returning a
  response of any status), \<open>send_telegram\<close> makes the one request, writes nothing and
  returns; what \<open>play_sound_file\<close> does is the same as with the request that the world
  \<open>w\<close> answers; and \<open>main\<close> returns 0 after the same calls.
\<close>

theorem send_telegram_failure_swallowed:
  assumes "sys_argv w = [prog, ''complete'']"
    and "environ w ''TELEGRAM_BOT_TOKEN'' = Some token" and "token \<noteq> []"
    and "environ w ''TELEGRAM_CHAT_ID'' = Some chat" and "chat \<noteq> []"
    and "cwd w = Inr here"
    and "fs_exists w (path_joinpath (path_joinpath (path_parent (fs_resolve w (dunder_file w)))
                        ''sounds'') ''complete.ogg'') = Inr found"
  shows "fst (send_telegram (w \<lparr> http_post := f \<rparr>) ''complete'') = Inr () \<and>
         written Stderr (snd (send_telegram (w \<lparr> http_post := f \<rparr>) ''complete'')) = [] \<and>
         written Stdout (snd (send_telegram (w \<lparr> http_post := f \<rparr>) ''complete'')) = [] \<and>
         play_sound_file (w \<lparr> http_post := f \<rparr>) p = play_sound_file w p \<and>
         fst (main (w \<lparr> http_post := f \<rparr>)) = Inr 0 \<and>
         snd (main (w \<lparr> http_post := f \<rparr>)) = snd (main w)"
proof -
  let ?w = "w \<lparr> http_post := f \<rparr>"
  let ?p = "path_joinpath (path_joinpath (path_parent (fs_resolve w (dunder_file w)))
              ''sounds'') ''complete.ogg''"
  have tg: "send_telegram ?w ''complete'' = send_telegram w ''complete''"
    by (rule telegram_ignores_answer)
  have ret: "fst (send_telegram w ''complete'') = Inr ()"
    by (rule telegram_returns) (simp add: assms(6))
  obtain b where pl: "fst (play_sound_file w ?p) = Inr b"
    using play_returns [OF assms(7)] by blast
  have argv: "sys_argv ?w = [prog, ''complete'']" using assms(1) by simp
  have m': "main ?w = (Inr 0, PathResolve (dunder_file ?w) #
      snd (play_sound_file ?w ?p) @ snd (send_telegram ?w ''complete''))"
    by (rule main_dispatch [OF argv _ _ _ _, where b = b])
      (simp_all add: sound_files_complete play_ignores_answer pl tg ret)
  have m: "main w = (Inr 0, PathResolve (dunder_file w) #
      snd (play_sound_file w ?p) @ snd (send_telegram w ''complete''))"
    by (rule main_dispatch [OF assms(1) _ _ pl ret]) (simp_all add: sound_files_complete)
  have calls: "snd (main ?w) = snd (main w)"
    unfolding m m' by (simp add: play_ignores_answer tg)
  have exit: "fst (main ?w) = Inr 0"
    unfolding m' by simp
  have ret': "fst (send_telegram ?w ''complete'') = Inr ()"
    unfolding tg by (rule ret)
  have quiet: "written Stderr (snd (send_telegram ?w ''complete'')) = []"
    "written Stdout (snd (send_telegram ?w ''complete'')) = []"
    by (rule telegram_silent)+
  from ret' quiet play_ignores_answer [where w = w and f = f and p = p] exit calls show ?thesis by (intro conjI)
qed

theorem send_telegram_failure_swallowed_witness:
  "fst (send_telegram (configured_world \<lparr> http_post := (\<lambda>url json timeout. Inl ''Read timed out'') \<rparr>)
          ''complete'') = Inr () \<and>
   written Stderr (snd (send_telegram
        (configured_world \<lparr> http_post := (\<lambda>url json timeout. Inl ''Read timed out'') \<rparr>) ''complete'')) = [] \<and>
   fst (main (configured_world \<lparr> http_post := (\<lambda>url json timeout. Inl ''Read timed out'') \<rparr>)) = Inr 0 \<and>
   fst (main (configured_world \<lparr> http_post := (\<lambda>url json timeout. Inr 500) \<rparr>)) = Inr 0"
proof -
  have a: "sys_argv configured_world = [''notify.py'', ''complete'']"
    by (simp add: configured_world_def base_world_def)
  have t: "environ configured_world ''TELEGRAM_BOT_TOKEN'' = Some ''123:abc''"
    and c: "environ configured_world ''TELEGRAM_CHAT_ID'' = Some ''42''"
    by (simp_all add: configured_world_def)
  have n: "''123:abc'' \<noteq> []" and m: "''42'' \<noteq> []" by simp_all
  have d: "cwd configured_world = Inr (Path True [''home'', ''dev'', ''proj''])"
    by (simp add: configured_world_def base_world_def)
  have x: "fs_exists configured_world
             (path_joinpath (path_joinpath (path_parent
                (fs_resolve configured_world (dunder_file configured_world))) ''sounds'')
                ''complete.ogg'') = Inr True"
    by (simp add: configured_world_def base_world_def)
  note r = send_telegram_failure_swallowed [OF a t n c m d x, where p = "Path True []"]
  show ?thesis
    using r [where f = "\<lambda>url json timeout. Inl ''Read timed out''"]
      r [where f = "\<lambda>url json timeout. Inr 500"]
    by (intro conjI) (elim conjE, assumption)+
qed

subsection \<open>Playing a sound file\<close>

text \<open>
  Claim C5, as amended. For a path on which \<open>exists()\<close> answers that no file is there,
  \<open>play_sound_file\<close> writes one line to the error stream which contains the path as
  \<open>str\<close> prints it, and returns \<open>False\<close>; it does not raise. That this holds of every
  path without a file fails: \<open>exists()\<close> is called before the \<open>try\<close>, and where it raises
  (up to Python 3.12, on a name that is too long for any file) \<open>play_sound_file\<close> raises
  and writes nothing.
\<close>

theorem play_sound_file_missing:
  assumes "fs_exists w p = Inr False"
  shows "play_sound_file w p =
           (Inr False,
            [PathExists p,
             Write Stderr (''Warning: Sound file not found: '' @ path_str p @ [CHR 0x0A])]) \<and>
         sublist (path_str p) (written Stderr (snd (play_sound_file w p))) \<and>
         written Stdout (snd (play_sound_file w p)) = []"
proof -
  note run = play_missing [OF assms]
  have "sublist (path_str p) (''Warning: Sound file not found: '' @ path_str p @ [CHR 0x0A])"
    by (rule sublist_appendI)
  then have "sublist (path_str p) (written Stderr (snd (play_sound_file w p)))"
    by (simp add: run)
  with run show ?thesis by simp
qed

theorem play_sound_file_missing_witness:
  "fs_exists (base_world \<lparr> fs_exists := (\<lambda>p. Inr False) \<rparr>) (Path True [''tmp'', ''nonexistent.wav''])
     = Inr False \<and>
   play_sound_file (base_world \<lparr> fs_exists := (\<lambda>p. Inr False) \<rparr>) (Path True [''tmp'', ''nonexistent.wav'']) =
     (Inr False,
      [PathExists (Path True [''tmp'', ''nonexistent.wav'']),
       Write Stderr (''Warning: Sound file not found: /tmp/nonexistent.wav'' @ [CHR 0x0A])])"
proof -
  let ?w = "base_world \<lparr> fs_exists := (\<lambda>p. Inr False) \<rparr>"
  let ?p = "Path True [''tmp'', ''nonexistent.wav'']"
  have h: "fs_exists ?w ?p = Inr False" by simp
  have s: "path_str ?p = ''/tmp/nonexistent.wav''" by simp
  from play_sound_file_missing [OF h] have "play_sound_file ?w ?p =
     (Inr False, [PathExists ?p, Write Stderr (''Warning: Sound file not found: '' @ path_str ?p @ [CHR 0x0A])])"
    by (rule conjunct1)
  then show ?thesis using h by (simp only: s append.simps simp_thms)
qed

text \<open>
  A path with no file, since its name has 256 characters: \<open>exists()\<close> does not answer
  that the file is there, and \<open>play_sound_file\<close> neither returns \<open>False\<close> nor writes the
  diagnostic; it raises the \<open>OSError\<close> of \<open>exists()\<close>.
\<close>

theorem play_sound_file_missing_counterexample:
  "fs_exists long_name_world (Path True [''tmp'', replicate 256 CHR ''a'']) \<noteq> Inr True \<and>
   fst (play_sound_file long_name_world (Path True [''tmp'', replicate 256 CHR ''a''])) \<noteq> Inr False \<and>
   written Stderr (snd (play_sound_file long_name_world (Path True [''tmp'', replicate 256 CHR ''a'']))) = [] \<and>
   play_sound_file long_name_world (Path True [''tmp'', replicate 256 CHR ''a'']) =
     (Inl (''[Errno 36] File name too long: '' @ [CHR 0x27] @
           path_str (Path True [''tmp'', replicate 256 CHR ''a'']) @ [CHR 0x27]),
      [PathExists (Path True [''tmp'', replicate 256 CHR ''a''])])"
proof -
  let ?p = "Path True [''tmp'', replicate 256 CHR ''a'']"
  let ?e = "''[Errno 36] File name too long: '' @ [CHR 0x27] @ path_str ?p @ [CHR 0x27]"
  have len: "255 < length (path_name ?p)" by simp
  have x: "fs_exists long_name_world ?p = Inl ?e"
    unfolding long_name_world_def using len by simp
  note r = play_exists_raises [OF x]
  have "fs_exists long_name_world ?p \<noteq> Inr True" unfolding x by simp
  moreover have "fst (play_sound_file long_name_world ?p) \<noteq> Inr False" unfolding r by simp
  moreover have "written Stderr (snd (play_sound_file long_name_world ?p)) = []"
    unfolding r by simp
  ultimately show ?thesis using r by (intro conjI)
qed

text \<open>
  Claim C6. When \<open>exists()\<close> answers that the file is there and \<open>sf.read\<close>, \<open>sd.play\<close> or \<open>sd.wait\<close> raises, with
  text \<open>e\<close>, \<open>play_sound_file\<close> catches the exception: it returns \<open>False\<close> rather than
  raising, and what it wrote to the error stream is the marker \<open>Error playing sound: \<close>
  followed by \<open>e\<close>.
\<close>

theorem play_sound_file_fault_caught:
  assumes "fs_exists w p = Inr True"
    and "soundfile_read w p = Inl e \<or>
         (\<exists>d r. soundfile_read w p = Inr (d, r) \<and>
            (sounddevice_play w d r = Some e \<or>
             (sounddevice_play w d r = None \<and> sounddevice_wait w = Some e)))"
  shows "fst (play_sound_file w p) = Inr False \<and>
         written Stderr (snd (play_sound_file w p)) = ''Error playing sound: '' @ e @ [CHR 0x0A] \<and>
         written Stdout (snd (play_sound_file w p)) = []"
proof -
  consider (decode) "soundfile_read w p = Inl e"
    | (play) d r where "soundfile_read w p = Inr (d, r)" "sounddevice_play w d r = Some e"
    | (wait) d r where "soundfile_read w p = Inr (d, r)" "sounddevice_play w d r = None"
        "sounddevice_wait w = Some e"
    using assms(2) by blast
  then show ?thesis
  proof cases
    case decode
    show ?thesis by (simp add: play_read_fault [OF assms(1) decode])
  next
    case play
    show ?thesis by (simp add: play_play_fault [OF assms(1) play])
  next
    case wait
    show ?thesis by (simp add: play_wait_fault [OF assms(1) wait])
  qed
qed

theorem play_sound_file_fault_caught_witness:
  "fst (play_sound_file (base_world \<lparr> soundfile_read := (\<lambda>p. Inl ''Failed to read file'') \<rparr>)
          (Path True [''tmp'', ''test.wav''])) = Inr False \<and>
   written Stderr (snd (play_sound_file (base_world \<lparr> soundfile_read := (\<lambda>p. Inl ''Failed to read file'') \<rparr>)
          (Path True [''tmp'', ''test.wav''])))
     = ''Error playing sound: '' @ ''Failed to read file'' @ [CHR 0x0A] \<and>
   written Stdout (snd (play_sound_file (base_world \<lparr> soundfile_read := (\<lambda>p. Inl ''Failed to read file'') \<rparr>)
          (Path True [''tmp'', ''test.wav'']))) = [] \<and>
   fst (play_sound_file (base_world \<lparr> sounddevice_play := (\<lambda>d r. Some ''Audio device error'') \<rparr>)
          (Path True [''tmp'', ''test.wav''])) = Inr False \<and>
   written Stderr (snd (play_sound_file (base_world \<lparr> sounddevice_play := (\<lambda>d r. Some ''Audio device error'') \<rparr>)
          (Path True [''tmp'', ''test.wav''])))
     = ''Error playing sound: '' @ ''Audio device error'' @ [CHR 0x0A] \<and>
   written Stdout (snd (play_sound_file (base_world \<lparr> sounddevice_play := (\<lambda>d r. Some ''Audio device error'') \<rparr>)
          (Path True [''tmp'', ''test.wav'']))) = []"
proof -
  let ?p = "Path True [''tmp'', ''test.wav'']"
  let ?w1 = "base_world \<lparr> soundfile_read := (\<lambda>p. Inl ''Failed to read file'') \<rparr>"
  let ?w2 = "base_world \<lparr> sounddevice_play := (\<lambda>d r. Some ''Audio device error'') \<rparr>"
  have ex1: "fs_exists ?w1 ?p = Inr True" and ex2: "fs_exists ?w2 ?p = Inr True"
    by (simp_all add: base_world_def)
  have f1: "soundfile_read ?w1 ?p = Inl ''Failed to read file'' \<or>
         (\<exists>d r. soundfile_read ?w1 ?p = Inr (d, r) \<and>
            (sounddevice_play ?w1 d r = Some ''Failed to read file'' \<or>
             (sounddevice_play ?w1 d r = None \<and> sounddevice_wait ?w1 = Some ''Failed to read file'')))"
    by simp
  have f2: "soundfile_read ?w2 ?p = Inl ''Audio device error'' \<or>
         (\<exists>d r. soundfile_read ?w2 ?p = Inr (d, r) \<and>
            (sounddevice_play ?w2 d r = Some ''Audio device error'' \<or>
             (sounddevice_play ?w2 d r = None \<and> sounddevice_wait ?w2 = Some ''Audio device error'')))"
    by (simp add: base_world_def)
  show ?thesis
    using play_sound_file_fault_caught [OF ex1 f1] play_sound_file_fault_caught [OF ex2 f2]
    by (intro conjI) (erule conjE, erule conjE, assumption)+
qed

text \<open>
  Claim C7. When the file exists, \<open>sf.read\<close> decodes it to the samples \<open>d\<close> at the rate
  \<open>r\<close>, and \<open>sd.play\<close> and \<open>sd.wait\<close> return, \<open>play_sound_file\<close> returns \<open>True\<close> after
  exactly these calls: the decoding of the file, one \<open>sd.play\<close> on \<open>d\<close> and \<open>r\<close>, and then
  one \<open>sd.wait\<close>, the last call before it returns.
\<close>

theorem play_sound_file_success:
  assumes "fs_exists w p = Inr True"
    and "soundfile_read w p = Inr (d, r)"
    and "sounddevice_play w d r = None"
    and "sounddevice_wait w = None"
  shows "play_sound_file w p = (Inr True, [PathExists p, SfRead p, SdPlay d r, SdWait])"
  by (rule play_ok [OF assms])

theorem play_sound_file_success_witness:
  "play_sound_file base_world (Path True [''tmp'', ''test.ogg'']) =
     (Inr True,
      [PathExists (Path True [''tmp'', ''test.ogg'']), SfRead (Path True [''tmp'', ''test.ogg'']),
       SdPlay [0, 1] 44100, SdWait])"
proof -
  let ?p = "Path True [''tmp'', ''test.ogg'']"
  have a: "fs_exists base_world ?p = Inr True" by (simp add: base_world_def)
  have b: "soundfile_read base_world ?p = Inr ([0, 1], 44100)" by (simp add: base_world_def)
  have c: "sounddevice_play base_world [0, 1] 44100 = None" by (simp add: base_world_def)
  have d: "sounddevice_wait base_world = None" by (simp add: base_world_def)
  show ?thesis by (rule play_sound_file_success [OF a b c d])
qed

subsection \<open>The sound files, other events, and the streams\<close>

text \<open>
  Claim C8. The sound file of an event is found from the location of the script alone:
  with \<open>Path a ps\<close> the resolved \<open>__file__\<close>, \<open>main\<close> plays, for \<open>input\<close>, the file
  \<open>input-needed.ogg\<close> and, for \<open>complete\<close>, the file \<open>complete.ogg\<close>, both in the directory
  \<open>sounds\<close> beside the script, so that the paths end in \<open>sounds/input-needed.ogg\<close> and
  \<open>sounds/complete.ogg\<close>. The working directory has no part in them. The mapping is a
  value built from the directory, which nothing updates. In every world the first two
  calls of \<open>main\<close> are the resolution of \<open>__file__\<close> and \<open>exists()\<close> on that path; where
  \<open>exists()\<close> answers and \<open>send_telegram\<close> returns, the whole run is that of
  \<open>play_sound_file\<close> on that path, then that of \<open>send_telegram\<close>, with result 0.
\<close>

theorem main_sound_mapping:
  assumes "fs_resolve w (dunder_file w) = Path a ps"
  shows "(sys_argv w = [prog, ''input''] \<longrightarrow>
            take 2 (snd (main w)) =
              [PathResolve (dunder_file w),
               PathExists (Path a (butlast ps @ [''sounds'', ''input-needed.ogg'']))]) \<and>
         (sys_argv w = [prog, ''complete''] \<longrightarrow>
            take 2 (snd (main w)) =
              [PathResolve (dunder_file w),
               PathExists (Path a (butlast ps @ [''sounds'', ''complete.ogg'']))]) \<and>
         (sys_argv w = [prog, ''input''] \<and>
          fs_exists w (Path a (butlast ps @ [''sounds'', ''input-needed.ogg''])) = Inr found \<longrightarrow>
            main w =
              (Inr 0,
               PathResolve (dunder_file w) #
               snd (play_sound_file w (Path a (butlast ps @ [''sounds'', ''input-needed.ogg''])))
               @ snd (send_telegram w ''input''))) \<and>
         (sys_argv w = [prog, ''complete''] \<and>
          fs_exists w (Path a (butlast ps @ [''sounds'', ''complete.ogg''])) = Inr found \<and>
          fst (send_telegram w ''complete'') = Inr () \<longrightarrow>
            main w =
              (Inr 0,
               PathResolve (dunder_file w) #
               snd (play_sound_file w (Path a (butlast ps @ [''sounds'', ''complete.ogg''])))
               @ snd (send_telegram w ''complete''))) \<and>
         suffix ''sounds/input-needed.ogg''
           (path_str (Path a (butlast ps @ [''sounds'', ''input-needed.ogg'']))) \<and>
         suffix ''sounds/complete.ogg''
           (path_str (Path a (butlast ps @ [''sounds'', ''complete.ogg''])))"
proof -
  let ?d = "path_joinpath (path_parent (fs_resolve w (dunder_file w))) ''sounds''"
  let ?pi = "Path a (butlast ps @ [''sounds'', ''input-needed.ogg''])"
  let ?pc = "Path a (butlast ps @ [''sounds'', ''complete.ogg''])"
  have fi: "sound_files ?d ''input'' = Some ?pi"
    by (simp add: sound_files_input assms)
  have fc: "sound_files ?d ''complete'' = Some ?pc"
    by (simp add: sound_files_complete assms)
  have first: "take 2 (snd (main w)) = [PathResolve (dunder_file w), PathExists p]"
    if argv: "sys_argv w = [prog, event]" and ev: "event = ''input'' \<or> event = ''complete''"
      and f: "sound_files ?d event = Some p" for event p
  proof -
    obtain t where t: "snd (play_sound_file w p) = PathExists p # t"
      by (cases "fs_exists w p")
        (simp_all add: play_sound_file_def path_exists_def io_bind_def)
    show ?thesis
    proof (cases "fst (play_sound_file w p)")
      case (Inl e)
      then show ?thesis
        by (simp add: main_sequence [OF argv ev f] io_then_raises io_then_Inr path_resolve_def t)
    next
      case (Inr b)
      then show ?thesis
        by (simp add: main_sequence [OF argv ev f] io_then_returns io_then_Inr path_resolve_def t)
    qed
  qed
  have ti: "sys_argv w = [prog, ''input''] \<longrightarrow>
      take 2 (snd (main w)) = [PathResolve (dunder_file w), PathExists ?pi]"
    using first [of "''input''" ?pi] fi by blast
  have tc: "sys_argv w = [prog, ''complete''] \<longrightarrow>
      take 2 (snd (main w)) = [PathResolve (dunder_file w), PathExists ?pc]"
    using first [of "''complete''" ?pc] fc by blast
  have i: "sys_argv w = [prog, ''input''] \<and> fs_exists w ?pi = Inr found \<longrightarrow>
            main w =
              (Inr 0, PathResolve (dunder_file w) #
               snd (play_sound_file w ?pi) @ snd (send_telegram w ''input''))"
  proof (intro impI, elim conjE)
    assume argv: "sys_argv w = [prog, ''input'']" and ex: "fs_exists w ?pi = Inr found"
    obtain b where pl: "fst (play_sound_file w ?pi) = Inr b"
      using play_returns [OF ex] by blast
    have tg: "fst (send_telegram w ''input'') = Inr ()"
      by (rule telegram_returns) simp
    show "main w = (Inr 0, PathResolve (dunder_file w) #
               snd (play_sound_file w ?pi) @ snd (send_telegram w ''input''))"
      by (rule main_dispatch [OF argv _ fi pl tg]) simp
  qed
  have c: "sys_argv w = [prog, ''complete''] \<and> fs_exists w ?pc = Inr found \<and>
           fst (send_telegram w ''complete'') = Inr () \<longrightarrow>
            main w =
              (Inr 0, PathResolve (dunder_file w) #
               snd (play_sound_file w ?pc) @ snd (send_telegram w ''complete''))"
  proof (intro impI, elim conjE)
    assume argv: "sys_argv w = [prog, ''complete'']" and ex: "fs_exists w ?pc = Inr found"
      and tg: "fst (send_telegram w ''complete'') = Inr ()"
    obtain b where pl: "fst (play_sound_file w ?pc) = Inr b"
      using play_returns [OF ex] by blast
    show "main w = (Inr 0, PathResolve (dunder_file w) #
               snd (play_sound_file w ?pc) @ snd (send_telegram w ''complete''))"
      by (rule main_dispatch [OF argv _ fc pl tg]) simp
  qed
  have si: "suffix ''sounds/input-needed.ogg'' (path_str ?pi)"
    using path_str_two_last [of "''sounds''" "''input-needed.ogg''" a "butlast ps"] by simp
  have sc: "suffix ''sounds/complete.ogg'' (path_str ?pc)"
    using path_str_two_last [of "''sounds''" "''complete.ogg''" a "butlast ps"] by simp
  from ti tc i c si sc show ?thesis by (intro conjI)
qed

theorem main_sound_mapping_witness:
  "main (base_world \<lparr> sys_argv := [''notify.py'', ''input''] \<rparr>) =
     (Inr 0,
      PathResolve (Path True [''opt'', ''hooks'', ''notify.py'']) #
      snd (play_sound_file (base_world \<lparr> sys_argv := [''notify.py'', ''input''] \<rparr>)
             (Path True [''opt'', ''hooks'', ''sounds'', ''input-needed.ogg'']))
      @ snd (send_telegram (base_world \<lparr> sys_argv := [''notify.py'', ''input''] \<rparr>) ''input'')) \<and>
   main base_world =
     (Inr 0,
      PathResolve (Path True [''opt'', ''hooks'', ''notify.py'']) #
      snd (play_sound_file base_world (Path True [''opt'', ''hooks'', ''sounds'', ''complete.ogg'']))
      @ snd (send_telegram base_world ''complete'')) \<and>
   take 2 (snd (main removed_cwd_world)) =
     [PathResolve (Path True [''opt'', ''hooks'', ''notify.py'']),
      PathExists (Path True [''opt'', ''hooks'', ''sounds'', ''complete.ogg''])]"
proof -
  let ?wi = "base_world \<lparr> sys_argv := [''notify.py'', ''input''] \<rparr>"
  let ?f = "Path True [''opt'', ''hooks'', ''notify.py'']"
  have di: "dunder_file ?wi = ?f" and dc: "dunder_file base_world = ?f"
    and dr: "dunder_file removed_cwd_world = ?f"
    by (simp_all add: base_world_def configured_world_def removed_cwd_world_def)
  have ri: "fs_resolve ?wi (dunder_file ?wi) = Path True [''opt'', ''hooks'', ''notify.py'']"
    by (simp add: base_world_def)
  have rc: "fs_resolve base_world (dunder_file base_world) = Path True [''opt'', ''hooks'', ''notify.py'']"
    by (simp add: base_world_def)
  have rr: "fs_resolve removed_cwd_world (dunder_file removed_cwd_world)
              = Path True [''opt'', ''hooks'', ''notify.py'']"
    by (simp add: base_world_def configured_world_def removed_cwd_world_def)
  have ai: "sys_argv ?wi = [''notify.py'', ''input'']" by simp
  have ac: "sys_argv base_world = [''notify.py'', ''complete'']" by (simp add: base_world_def)
  have ar: "sys_argv removed_cwd_world = [''notify.py'', ''complete'']"
    by (simp add: base_world_def configured_world_def removed_cwd_world_def)
  have bl: "butlast [''opt'', ''hooks'', ''notify.py''] @ [''sounds'', x] = [''opt'', ''hooks'', ''sounds'', x]"
    for x :: string by simp
  have xi: "fs_exists ?wi (Path True (butlast [''opt'', ''hooks'', ''notify.py''] @ [''sounds'', ''input-needed.ogg'']))
              = Inr True"
    by (simp add: base_world_def)
  have xc: "fs_exists base_world (Path True (butlast [''opt'', ''hooks'', ''notify.py''] @ [''sounds'', ''complete.ogg'']))
              = Inr True"
    by (simp add: base_world_def)
  have tg: "fst (send_telegram base_world ''complete'') = Inr ()"
    by (simp add: telegram_unconfigured base_world_def)
  from main_sound_mapping [OF ri, of "''notify.py''" True] ai xi
  have i: "main ?wi =
     (Inr 0, PathResolve (dunder_file ?wi) #
      snd (play_sound_file ?wi (Path True (butlast [''opt'', ''hooks'', ''notify.py''] @ [''sounds'', ''input-needed.ogg''])))
      @ snd (send_telegram ?wi ''input''))"
    by blast
  from main_sound_mapping [OF rc, of "''notify.py''" True] ac xc tg
  have c: "main base_world =
     (Inr 0, PathResolve (dunder_file base_world) #
      snd (play_sound_file base_world (Path True (butlast [''opt'', ''hooks'', ''notify.py''] @ [''sounds'', ''complete.ogg''])))
      @ snd (send_telegram base_world ''complete''))"
    by blast
  from main_sound_mapping [OF rr, of "''notify.py''"] ar
  have r: "take 2 (snd (main removed_cwd_world)) =
     [PathResolve (dunder_file removed_cwd_world),
      PathExists (Path True (butlast [''opt'', ''hooks'', ''notify.py''] @ [''sounds'', ''complete.ogg'']))]"
    by blast
  from i c r show ?thesis unfolding bl di dc dr by (intro conjI)
qed

text \<open>
  Claim C9. For an event other than \<open>complete\<close>, \<open>send_telegram\<close> returns at once: it
  makes no call at all, so it reads no variable, posts nothing and writes nothing.
\<close>

theorem send_telegram_other_event:
  assumes "event \<noteq> ''complete''"
  shows "send_telegram w event = (Inr (), [])"
  using assms by (simp add: send_telegram_def io_return_def)

theorem send_telegram_other_event_witness:
  "''input'' \<noteq> ''complete'' \<and> send_telegram configured_world ''input'' = (Inr (), [])"
proof -
  have h: "''input'' \<noteq> ''complete''" by simp
  show ?thesis by (rule conjI [OF h send_telegram_other_event [OF h]])
qed

text \<open>
  Claim C10. In every world, so on every path through \<open>main\<close> (usage error, missing
  file, playback fault, success, with or without a remote notification, and also when a
  call raises out of \<open>main\<close>), the script writes nothing to standard output: every write
  of the model names its stream, and all are made on the error stream.
\<close>

theorem main_writes_nothing_to_stdout:
  "written Stdout (snd (main w)) = []"
proof (cases "sys_argv w")
  case Nil
  then show ?thesis by (simp add: main_no_argv)
next
  case (Cons prog args)
  show ?thesis
  proof (cases "args = [''input''] \<or> args = [''complete'']")
    case False
    then show ?thesis by (simp add: main_usage [OF Cons])
  next
    case True
    then obtain event where ev: "event = ''input'' \<or> event = ''complete''" and args: "args = [event]"
      by blast
    have argv: "sys_argv w = [prog, event]" using Cons args by simp
    obtain sound_file where
      f: "sound_files (path_joinpath (path_parent (fs_resolve w (dunder_file w))) ''sounds'') event
            = Some sound_file"
      using ev sound_files_input sound_files_complete by blast
    have "written Stdout (snd (io_then (send_telegram w event) (io_return (0::int)))) = []"
      by (rule written_io_then) (simp_all add: telegram_silent io_return_def)
    then have "written Stdout (snd (io_then (play_sound_file w sound_file)
        (io_then (send_telegram w event) (io_return (0::int))))) = []"
      by (rule written_io_then [OF play_stdout])
    then show ?thesis
      unfolding main_sequence [OF argv ev f]
      by (rule written_io_then [rotated]) (simp add: path_resolve_def)
  qed
qed

theorem main_writes_nothing_to_stdout_witness:
  "written Stdout (snd (main (base_world \<lparr> fs_exists := (\<lambda>p. Inr False) \<rparr>))) = []"
  by (rule main_writes_nothing_to_stdout)

end
